theory Spec2Isabelle
  imports Complex_Main
begin

section \<open>Events\<close>

text \<open>
  The event shape shared by the recording script, the ingestion endpoint and the replay
  page (\<^verbatim>\<open>components/types.ts\<close>): a type tag, a timestamp in milliseconds relative to the
  session start, and a payload. Optional payload fields are options; only the fields that
  the modelled functions read or write are kept.
\<close>

record canvas_element =
  domId :: string
  dataUrl :: "string option"

record event_data =
  d_timestamp :: "string option"
  d_url :: "string option"
  d_html :: "string option"
  d_doctype :: "string option"
  d_canvasElements :: "canvas_element list option"
  d_viewportSize :: "string option"
  d_x :: "int option"
  d_y :: "int option"

record event =
  type :: string
  timestamp :: int
  data :: "event_data option"

definition no_data :: event_data where
  "no_data = \<lparr>d_timestamp = None, d_url = None, d_html = None, d_doctype = None,
     d_canvasElements = None, d_viewportSize = None, d_x = None, d_y = None\<rparr>"

section \<open>The recording script (public/recording-script.js)\<close>

text \<open>
  What the script reads from the browser at one instant: the clock (\<^verbatim>\<open>Date.now()\<close> and
  \<^verbatim>\<open>new Date().toISOString()\<close>), the location, the serialised document and the canvases
  as \<^verbatim>\<open>processCanvasElement\<close> captures them.
\<close>

record page =
  now :: int
  iso :: string
  href :: string
  outerHTML :: string
  doctype :: string
  canvases :: "canvas_element list"
  viewportSize :: string
  userAgent :: string
  screenResolution :: string
  referrer :: string

text \<open>
  The fields of \<^verbatim>\<open>RecordingScript\<close> that the modelled methods touch. \<open>listening\<close>,
  \<open>snapshotInterval\<close> and \<open>observing\<close> say whether the document listeners, the 10 s
  snapshot interval and the mutation observer are installed. \<open>flushed\<close> is the history of
  the \<^verbatim>\<open>chunk\<close> arrays that calls of \<^verbatim>\<open>saveChunk\<close> have spliced out of the buffer, oldest
  first: \<^verbatim>\<open>saveChunk\<close> is asynchronous, and everything after its first \<^verbatim>\<open>await\<close> runs later
  (see \<open>saveChunk_settle\<close>).
\<close>

record recorder =
  events :: "event list"
  startTime :: int
  isRecording :: bool
  apiKey :: string
  sessionId :: string
  lastDomSnapshotTime :: int
  listening :: bool
  snapshotInterval :: bool
  observing :: bool
  flushed :: "event list list"

text \<open>The constructor; the session id is the random string the constructor draws.\<close>

definition new_recorder :: "page \<Rightarrow> string \<Rightarrow> string \<Rightarrow> recorder" where
  "new_recorder p k sid =
     \<lparr>events = [], startTime = now p, isRecording = False, apiKey = k, sessionId = sid,
      lastDomSnapshotTime = 0, listening = False, snapshotInterval = False,
      observing = False, flushed = []\<rparr>"

text \<open>
  \<^verbatim>\<open>saveChunk\<close> up to its first \<^verbatim>\<open>await\<close>: nothing on an empty buffer, otherwise
  \<^verbatim>\<open>chunk = this.events.splice(0, this.events.length)\<close>.
\<close>

definition saveChunk :: "recorder \<Rightarrow> recorder" where
  "saveChunk r =
     (if events r = [] then r
      else r\<lparr>events := [], flushed := flushed r @ [events r]\<rparr>)"

definition recordEvent :: "string \<Rightarrow> event_data \<Rightarrow> page \<Rightarrow> recorder \<Rightarrow> recorder" where
  "recordEvent ty d p r =
     (if \<not> isRecording r then r
      else
        let r' = r\<lparr>events := events r @
                   [\<lparr>type = ty, timestamp = now p - startTime r, data = Some d\<rparr>]\<rparr>
        in if length (events r') > 10 then saveChunk r' else r')"

text \<open>
  The rest of \<^verbatim>\<open>saveChunk\<close>, run when the transport answers: the session upsert, then the
  chunk submission, then the parse of the chunk response. \<open>Rejected\<close> is a \<^verbatim>\<open>fetch\<close> that
  throws. The \<^verbatim>\<open>catch\<close> block puts the chunk back with \<^verbatim>\<open>this.events.unshift(...chunk)\<close>.
\<close>

datatype fetch_result = Rejected | Response nat

definition ok :: "nat \<Rightarrow> bool" where
  "ok status = (200 \<le> status \<and> status \<le> 299)"

definition requeue :: "event list \<Rightarrow> recorder \<Rightarrow> recorder" where
  "requeue chunk r = r\<lparr>events := chunk @ events r\<rparr>"

definition saveChunk_settle ::
  "fetch_result \<Rightarrow> fetch_result \<Rightarrow> bool \<Rightarrow> event list \<Rightarrow> recorder \<Rightarrow> recorder" where
  "saveChunk_settle sessionResponse chunkResponse jsonParses chunk r =
     (case sessionResponse of
        Rejected \<Rightarrow> requeue chunk r
      | Response st \<Rightarrow>
          if st = 401 then r\<lparr>isRecording := False\<rparr>
          else if \<not> ok st then requeue chunk r
          else (case chunkResponse of
                  Rejected \<Rightarrow> requeue chunk r
                | Response st' \<Rightarrow>
                    if st' = 401 then r\<lparr>isRecording := False\<rparr>
                    else if \<not> ok st' then requeue chunk r
                    else if jsonParses then r
                    else requeue chunk r))"

text \<open>The payload of a full snapshot, and \<^verbatim>\<open>captureFullDomSnapshot\<close>.\<close>

definition snapshot_data :: "page \<Rightarrow> event_data" where
  "snapshot_data p =
     no_data\<lparr>d_html := Some (outerHTML p), d_doctype := Some (doctype p),
       d_canvasElements := Some (canvases p), d_url := Some (href p),
       d_timestamp := Some (iso p), d_viewportSize := Some (viewportSize p)\<rparr>"

definition captureFullDomSnapshot :: "page \<Rightarrow> recorder \<Rightarrow> recorder" where
  "captureFullDomSnapshot p r =
     (if \<not> isRecording r then r
      else (recordEvent ''dom_snapshot'' (snapshot_data p) p r)\<lparr>lastDomSnapshotTime := now p\<rparr>)"

definition scheduleDomSnapshots :: "recorder \<Rightarrow> recorder" where
  "scheduleDomSnapshots r = r\<lparr>snapshotInterval := True\<rparr>"

definition captureInitialDomState :: "page \<Rightarrow> recorder \<Rightarrow> recorder" where
  "captureInitialDomState p r =
     scheduleDomSnapshots
       (recordEvent ''dom_snapshot'' (snapshot_data p) p
         (recordEvent ''initial_dom_state''
            (no_data\<lparr>d_canvasElements := Some (canvases p), d_url := Some (href p),
               d_timestamp := Some (iso p)\<rparr>) p r))"

definition session_start_data :: "page \<Rightarrow> event_data" where
  "session_start_data p =
     no_data\<lparr>d_url := Some (href p), d_viewportSize := Some (viewportSize p),
       d_timestamp := Some (iso p)\<rparr>"

definition start :: "page \<Rightarrow> recorder \<Rightarrow> recorder" where
  "start p r =
     (if isRecording r then r
      else
        let r1 = r\<lparr>isRecording := True, startTime := now p\<rparr>;
            r2 = r1\<lparr>listening := True\<rparr>;
            r3 = captureInitialDomState p r2;
            r4 = recordEvent ''session_start'' (session_start_data p) p r3;
            r5 = saveChunk r4
        in r5\<lparr>observing := True\<rparr>)"

text \<open>
  \<^verbatim>\<open>saveSession\<close> posts the session row (no events) and resolves to the server's answer;
  the model keeps the row it posts. \<^verbatim>\<open>stop\<close> returns that promise, or \<^verbatim>\<open>undefined\<close>
  (\<open>None\<close>) when the recorder is not recording.
\<close>

record session_data =
  sd_id :: string
  sd_url :: string
  sd_viewport_size :: string
  sd_user_agent :: string
  sd_screen_resolution :: string
  sd_referrer :: string
  sd_start_time :: int
  sd_end_time :: string

definition saveSession :: "page \<Rightarrow> recorder \<Rightarrow> session_data" where
  "saveSession p r =
     \<lparr>sd_id = sessionId r, sd_url = href p, sd_viewport_size = viewportSize p,
      sd_user_agent = userAgent p, sd_screen_resolution = screenResolution p,
      sd_referrer = referrer p, sd_start_time = startTime r, sd_end_time = iso p\<rparr>"

definition stop :: "page \<Rightarrow> recorder \<Rightarrow> session_data option \<times> recorder" where
  "stop p r =
     (if \<not> isRecording r then (None, r)
      else
        let r1 = r\<lparr>isRecording := False\<rparr>;
            r2 = r1\<lparr>listening := False\<rparr>;
            r3 = (if snapshotInterval r2 then r2\<lparr>snapshotInterval := False\<rparr> else r2);
            r4 = recordEvent ''session_end'' (no_data\<lparr>d_timestamp := Some (iso p)\<rparr>) p r3;
            r5 = captureFullDomSnapshot p r4
        in (Some (saveSession p r5), r5))"

text \<open>
  Every event the recorder has accepted so far, in order: the chunks already spliced out
  for delivery, then the live buffer.
\<close>

definition accumulated :: "recorder \<Rightarrow> event list" where
  "accumulated r = concat (flushed r) @ events r"

subsection \<open>Significance scoring\<close>








section \<open>The chunk endpoint (POST /api/sessions/chunks)\<close>

text \<open>
  The three tables the handler reads and writes. \<^verbatim>\<open>sessions.id\<close> is a primary key; the
  \<^verbatim>\<open>hash\<close> column of \<^verbatim>\<open>session_chunks\<close> carries no constraint (\<^verbatim>\<open>lib/README.md\<close>). An
  element of a submitted events array is any JSON value: \<open>None\<close> is \<^verbatim>\<open>null\<close>, whose property
  reads throw.
\<close>

record api_key_row =
  key :: string
  allowed_url :: string

record session_row =
  row_id :: string
  row_url :: string
  row_created_at :: string

record chunk_row =
  session_id :: string
  chunk_events :: "event option list"
  hash :: string
  created_at :: string

record store =
  api_keys :: "api_key_row list"
  sessions :: "session_row list"
  session_chunks :: "chunk_row list"

text \<open>\<^verbatim>\<open>.single()\<close> yields a row only when the query matches exactly one.\<close>

definition single :: "'a list \<Rightarrow> 'a option" where
  "single rows = (case rows of [x] \<Rightarrow> Some x | _ \<Rightarrow> None)"

text \<open>
  \<^verbatim>\<open>normalizeUrl\<close>; the platform's URL parser is a parameter that yields the hostname and
  the port, or \<open>None\<close> where \<^verbatim>\<open>new URL(url)\<close> throws.
\<close>

definition normalizeUrl :: "(string \<Rightarrow> (string \<times> string) option) \<Rightarrow> string \<Rightarrow> string" where
  "normalizeUrl parseUrl url =
     (case parseUrl url of
        None \<Rightarrow> url
      | Some (hostname, port) \<Rightarrow> hostname @ (if port \<noteq> [] then '':'' @ port else []))"

fun string_of_nat :: "nat \<Rightarrow> string" where
  "string_of_nat n =
     (if n < 10 then [char_of (48 + n)]
      else string_of_nat (n div 10) @ [char_of (48 + n mod 10)])"

declare string_of_nat.simps [simp del]

text \<open>
  \<^verbatim>\<open>generateChunkHash\<close>. \<open>rnd\<close> is the string that \<^verbatim>\<open>Math.random().toString(36).substring(2)\<close>
  yields in the \<^verbatim>\<open>catch\<close> branch, which is reached when the first or the last element is
  \<^verbatim>\<open>null\<close>.
\<close>

definition firstTimestamp :: "event \<Rightarrow> string" where
  "firstTimestamp e =
     (case data e of
        None \<Rightarrow> []
      | Some d \<Rightarrow> (case d_timestamp d of None \<Rightarrow> [] | Some t \<Rightarrow> t))"

definition generateChunkHash :: "string \<Rightarrow> string \<Rightarrow> event option list \<Rightarrow> string" where
  "generateChunkHash rnd sid evs =
     (if evs = [] then []
      else
        (case hd evs of
           None \<Rightarrow> rnd
         | Some firstEvent \<Rightarrow>
             (case last evs of
                None \<Rightarrow> rnd
              | Some lastEvent \<Rightarrow>
                  sid @ ''-'' @ string_of_nat (length evs) @ ''-'' @ type firstEvent
                    @ ''-'' @ type lastEvent @ ''-'' @ firstTimestamp firstEvent)))"

text \<open>
  A request: the \<^verbatim>\<open>x-api-key\<close> header and the parsed body (\<open>None\<close> where
  \<^verbatim>\<open>request.json()\<close> throws). An empty \<open>b_sessionId\<close> stands for a missing or falsy one,
  \<open>b_events = None\<close> for a missing value or one that is not an array.
\<close>

record chunk_body =
  b_sessionId :: string
  b_events :: "event option list option"
  b_url :: string

record request =
  x_api_key :: "string option"
  body :: "chunk_body option"

text \<open>
  What the handler draws from its environment: the clock, the random fallback hash, and
  whether the database refuses an insert.
\<close>

record server_env =
  s_now :: string
  random :: string
  sessionInsertFails :: bool
  chunkInsertFails :: bool

datatype json_body = Error string | Message string | Success "string option"

type_synonym response = "nat \<times> json_body"

text \<open>Lines 132 to 157: create the session row when the lookup does not find one.\<close>

definition ensureSession :: "server_env \<Rightarrow> string \<Rightarrow> string \<Rightarrow> store \<Rightarrow> store option" where
  "ensureSession env sid url db =
     (case single (filter (\<lambda>s. row_id s = sid) (sessions db)) of
        Some sessionData \<Rightarrow> Some db
      | None \<Rightarrow>
          if sessionInsertFails env \<or> sid \<in> set (map row_id (sessions db)) then None
          else Some (db\<lparr>sessions := sessions db @
                  [\<lparr>row_id = sid, row_url = url, row_created_at = s_now env\<rparr>]\<rparr>))"

text \<open>Lines 159 to 193: fingerprint, duplicate lookup, insert.\<close>

definition storeChunk ::
  "server_env \<Rightarrow> string \<Rightarrow> event option list \<Rightarrow> store \<Rightarrow> response \<times> store" where
  "storeChunk env sid evs db =
     (let chunkHash = generateChunkHash (random env) sid evs in
      case single (filter (\<lambda>c. hash c = chunkHash) (session_chunks db)) of
        Some existingChunk \<Rightarrow> ((200, Success (Some ''Duplicate chunk skipped'')), db)
      | None \<Rightarrow>
          if chunkInsertFails env then ((500, Error ''Failed to save chunk''), db)
          else ((200, Success None),
                db\<lparr>session_chunks := session_chunks db @
                  [\<lparr>session_id = sid, chunk_events = evs, hash = chunkHash,
                    created_at = s_now env\<rparr>]\<rparr>))"

definition POST ::
  "(string \<Rightarrow> (string \<times> string) option) \<Rightarrow> server_env \<Rightarrow> request \<Rightarrow> store \<Rightarrow> response \<times> store" where
  "POST parseUrl env req db =
     (case x_api_key req of
        None \<Rightarrow> ((401, Error ''API key is required''), db)
      | Some k \<Rightarrow>
          if k = [] then ((401, Error ''API key is required''), db)
          else
            (case body req of
               None \<Rightarrow> ((500, Error ''Internal server error''), db)
             | Some b \<Rightarrow>
                 (case b_events b of
                    None \<Rightarrow> ((400, Error ''Invalid session data format''), db)
                  | Some evs \<Rightarrow>
                      if b_sessionId b = [] then ((400, Error ''Invalid session data format''), db)
                      else if evs = [] then ((200, Message ''No events to save''), db)
                      else
                        (case single (filter (\<lambda>row. key row = k) (api_keys db)) of
                           None \<Rightarrow> ((401, Error ''Invalid API key''), db)
                         | Some apiKeyData \<Rightarrow>
                             if normalizeUrl parseUrl (allowed_url apiKeyData)
                                  \<noteq> normalizeUrl parseUrl (b_url b)
                             then ((401, Error ''URL not allowed for this API key''), db)
                             else
                               (case ensureSession env (b_sessionId b) (b_url b) db of
                                  None \<Rightarrow> ((500, Error ''Failed to create session''), db)
                                | Some db' \<Rightarrow> storeChunk env (b_sessionId b) evs db')))))"

section \<open>The replay page (sessions/[id]/page.tsx)\<close>

record replay_state =
  currentTime :: int
  isPlaying :: bool
  cursorPosition :: "int \<times> int"
  reconstructedDom :: string
  canvasSnapshots :: "canvas_element list"
  currentUrl :: "string option"

definition getTotalDuration :: "event list \<Rightarrow> int" where
  "getTotalDuration evs = (if evs = [] then 0 else timestamp (last evs))"

text \<open>\<^verbatim>\<open>e.data?.html\<close> and \<^verbatim>\<open>e.data?.url\<close>, with the empty string for every falsy value.\<close>

definition html_of :: "event \<Rightarrow> string" where
  "html_of e =
     (case data e of None \<Rightarrow> [] | Some d \<Rightarrow> (case d_html d of None \<Rightarrow> [] | Some h \<Rightarrow> h))"

definition url_of :: "event \<Rightarrow> string" where
  "url_of e =
     (case data e of None \<Rightarrow> [] | Some d \<Rightarrow> (case d_url d of None \<Rightarrow> [] | Some u \<Rightarrow> u))"

definition canvas_of :: "event \<Rightarrow> canvas_element list option" where
  "canvas_of e = (case data e of None \<Rightarrow> None | Some d \<Rightarrow> d_canvasElements d)"

text \<open>
  The state that \<^verbatim>\<open>fetchSessionData\<close> leaves once the normalised events are in place: the
  first snapshot with markup is the initial DOM.
\<close>

definition loaded :: "string option \<Rightarrow> event list \<Rightarrow> replay_state" where
  "loaded sessionUrl evs =
     (let st = \<lparr>currentTime = 0, isPlaying = False, cursorPosition = (0, 0),
                reconstructedDom = [], canvasSnapshots = [], currentUrl = sessionUrl\<rparr>
      in case List.find (\<lambda>e. type e = ''dom_snapshot'' \<and> html_of e \<noteq> []) evs of
           None \<Rightarrow> st
         | Some initialDomSnapshot \<Rightarrow>
             (case canvas_of initialDomSnapshot of
                None \<Rightarrow> st\<lparr>reconstructedDom := html_of initialDomSnapshot\<rparr>
              | Some cs \<Rightarrow> st\<lparr>reconstructedDom := html_of initialDomSnapshot,
                            canvasSnapshots := cs\<rparr>))"

text \<open>
  The three streams of \<^verbatim>\<open>handleTimelineChange\<close>. \<^verbatim>\<open>Array.prototype.sort\<close> is stable, as
  \<open>sort_key\<close> is; sorting on the negated timestamp is the descending comparator.
\<close>

definition seekCursor :: "event list \<Rightarrow> int \<Rightarrow> replay_state \<Rightarrow> replay_state" where
  "seekCursor evs newTime st =
     (case List.find (\<lambda>e. (type e = ''mousemove'' \<or> type e = ''click'') \<and> timestamp e \<le> newTime)
             (rev evs) of
        None \<Rightarrow> st
      | Some lastEventBeforeTime \<Rightarrow>
          (case data lastEventBeforeTime of
             None \<Rightarrow> st
           | Some d \<Rightarrow>
               (case (d_x d, d_y d) of
                  (Some x, Some y) \<Rightarrow> st\<lparr>cursorPosition := (x, y)\<rparr>
                | _ \<Rightarrow> st)))"

definition lastDomSnapshot :: "event list \<Rightarrow> int \<Rightarrow> event option" where
  "lastDomSnapshot evs newTime =
     (case sort_key (\<lambda>e. - timestamp e)
             (filter (\<lambda>e. type e = ''dom_snapshot'' \<and> timestamp e \<le> newTime) evs) of
        [] \<Rightarrow> None
      | e # _ \<Rightarrow> Some e)"

definition seekDom :: "event list \<Rightarrow> int \<Rightarrow> replay_state \<Rightarrow> replay_state" where
  "seekDom evs newTime st =
     (case lastDomSnapshot evs newTime of
        None \<Rightarrow> st
      | Some s \<Rightarrow>
          if html_of s = [] then st
          else (case canvas_of s of
                  None \<Rightarrow> st\<lparr>reconstructedDom := html_of s\<rparr>
                | Some cs \<Rightarrow> st\<lparr>reconstructedDom := html_of s, canvasSnapshots := cs\<rparr>))"

definition seekUrl :: "event list \<Rightarrow> int \<Rightarrow> replay_state \<Rightarrow> replay_state" where
  "seekUrl evs newTime st =
     (case sort_key (\<lambda>e. - timestamp e)
             (filter (\<lambda>e. type e = ''session_start'' \<and> url_of e \<noteq> [] \<and> timestamp e \<le> newTime)
                evs) of
        [] \<Rightarrow> st
      | lastUrlChange # _ \<Rightarrow> st\<lparr>currentUrl := Some (url_of lastUrlChange)\<rparr>)"

definition handleTimelineChange :: "event list \<Rightarrow> int \<Rightarrow> replay_state \<Rightarrow> replay_state" where
  "handleTimelineChange evs newTime st =
     (let st1 = st\<lparr>currentTime := newTime\<rparr>;
          st2 = (if isPlaying st \<and> newTime \<ge> getTotalDuration evs
                 then st1\<lparr>isPlaying := False\<rparr> else st1)
      in seekUrl evs newTime (seekDom evs newTime (seekCursor evs newTime st2)))"

section \<open>The coordinate transform (components/ReplayView.tsx)\<close>





section \<open>Sanitising a snapshot (components/DomRenderer.tsx)\<close>

text \<open>
  The regular expressions of \<^verbatim>\<open>sanitizeHtml\<close> as syntax trees, and a backtracking matcher.
  \<open>rmatches r s\<close> lists, in the order the backtracking engine tries them, what is left of
  \<open>s\<close> after each way \<open>r\<close> can match a prefix of it: its head is the match that
  \<^verbatim>\<open>replace\<close> takes at that position. \<open>Star\<close> is greedy and refuses an empty iteration;
  \<open>NLook\<close> is a negative lookahead.
\<close>

datatype re = Eps | Chr "char \<Rightarrow> bool" | Seq re re | Star re | NLook re

fun rmatches :: "re \<Rightarrow> string \<Rightarrow> string list" where
  "rmatches Eps s = [s]"
| "rmatches (Chr P) s = (case s of [] \<Rightarrow> [] | c # cs \<Rightarrow> if P c then [cs] else [])"
| "rmatches (Seq a b) s = concat (map (\<lambda>s'. rmatches b s') (rmatches a s))"
| "rmatches (Star a) s =
     concat (map (\<lambda>s'. if length s' < length s then rmatches (Star a) s' else []) (rmatches a s))
       @ [s]"
| "rmatches (NLook a) s = (if rmatches a s = [] then [s] else [])"

text \<open>\<^verbatim>\<open>str.replace(/r/g, "")\<close>: drop every match, scanning from the left.\<close>

fun remove_all :: "re \<Rightarrow> string \<Rightarrow> string" where
  "remove_all r [] = []"
| "remove_all r (c # cs) =
     (case rmatches r (c # cs) of
        [] \<Rightarrow> c # remove_all r cs
      | rest # _ \<Rightarrow>
          if length rest < length (c # cs) then remove_all r rest else c # remove_all r cs)"

definition lower :: "char \<Rightarrow> char" where
  "lower c =
     (if 65 \<le> (of_char c :: nat) \<and> (of_char c :: nat) \<le> 90 then char_of ((of_char c :: nat) + 32)
      else c)"

definition is_word :: "char \<Rightarrow> bool" where
  "is_word c =
     (let n = (of_char c :: nat)
      in (48 \<le> n \<and> n \<le> 57) \<or> (65 \<le> n \<and> n \<le> 90) \<or> (97 \<le> n \<and> n \<le> 122) \<or> n = 95)"

text \<open>A literal under the \<^verbatim>\<open>i\<close> flag (the literal is written in lower case).\<close>

fun lit :: "string \<Rightarrow> re" where
  "lit [] = Eps"
| "lit (c # cs) = Seq (Chr (\<lambda>x. lower x = c)) (lit cs)"

definition not_chr :: "char \<Rightarrow> re" where
  "not_chr c = Chr (\<lambda>x. x \<noteq> c)"

text \<open>
  \<^verbatim>\<open>/<script\b[^<]*(?:(?!<\/script>)<[^<]*)*<\/script>/gi\<close>. Right after the word character
  \<^verbatim>\<open>t\<close>, \<^verbatim>\<open>\b\<close> holds exactly when no word character follows.
\<close>

definition script_re :: re where
  "script_re =
     Seq (lit ''<script'')
      (Seq (NLook (Chr is_word))
        (Seq (Star (not_chr CHR ''<''))
          (Seq (Star (Seq (NLook (lit ''</script>''))
                       (Seq (Chr (\<lambda>x. x = CHR ''<'')) (Star (not_chr CHR ''<'')))))
               (lit ''</script>''))))"

text \<open>\<^verbatim>\<open>/on\w+="[^"]*"/gi\<close> and \<^verbatim>\<open>/on\w+='[^']*'/gi\<close>, by the quote character.\<close>

definition handler_re :: "char \<Rightarrow> re" where
  "handler_re q =
     Seq (lit ''on'')
      (Seq (Chr is_word)
        (Seq (Star (Chr is_word))
          (Seq (Chr (\<lambda>x. x = CHR ''=''))
            (Seq (Chr (\<lambda>x. x = q))
              (Seq (Star (not_chr q)) (Chr (\<lambda>x. x = q)))))))"

definition sanitizeHtml :: "string \<Rightarrow> string" where
  "sanitizeHtml html =
     (if html = [] then []
      else remove_all (handler_re (CHR 0x27))
             (remove_all (handler_re (CHR 0x22)) (remove_all script_re html)))"

text \<open>
  The guards of \<^verbatim>\<open>applyDomToReplayContent\<close> up to the point where the sanitised markup is
  handed to the DOM parser: \<open>None\<close> where a diagnostic placeholder is rendered instead. A
  pattern anchored by \<^verbatim>\<open>^\<close> and \<^verbatim>\<open>$\<close> matches when some way of matching consumes the
  whole string.
\<close>

definition full_match :: "re \<Rightarrow> string \<Rightarrow> bool" where
  "full_match r s = ([] \<in> set (rmatches r s))"

definition empty_document :: "string \<Rightarrow> bool" where
  "empty_document html =
     (full_match (Seq (lit ''<html'') (Seq (Star (not_chr CHR ''>'')) (lit ''></html>''))) html
      \<or> full_match
          (Seq (lit ''<html'') (Seq (Star (not_chr CHR ''>''))
            (Seq (lit ''><head'') (Seq (Star (not_chr CHR ''>''))
              (Seq (lit ''></head><body'') (Seq (Star (not_chr CHR ''>''))
                (lit ''></body></html>'')))))))
          html)"

definition adoptedMarkup :: "string \<Rightarrow> string option" where
  "adoptedMarkup html =
     (if html = [] then None
      else if empty_document html then None
      else if length (sanitizeHtml html) < 50 then None
      else Some (sanitizeHtml html))"


section \<open>Example data\<close>

text \<open>Concrete inputs for the closed theorems below.\<close>

definition page_at :: "int \<Rightarrow> page" where
  "page_at t = \<lparr>now = t, iso = ''2024-01-01T00:00:00.000Z'', href = ''http://shop.test/'',
     outerHTML = ''<html><head></head><body></body></html>'', doctype = ''<!DOCTYPE html>'',
     canvases = [], viewportSize = ''800x600'', userAgent = ''agent'',
     screenResolution = ''1920x1080'', referrer = []\<rparr>"

definition started :: recorder where
  "started = start (page_at 0) (new_recorder (page_at 0) ''key'' ''s1'')"

definition scrolls :: "int list \<Rightarrow> recorder \<Rightarrow> recorder" where
  "scrolls ts r = foldl (\<lambda>r t. recordEvent ''scroll'' no_data (page_at t) r) r ts"

definition demo_env :: server_env where
  "demo_env = \<lparr>s_now = ''2024-01-01T00:00:05.000Z'', random = ''k3j9x1'',
     sessionInsertFails = False, chunkInsertFails = False\<rparr>"

definition demo_store :: store where
  "demo_store = \<lparr>api_keys = [\<lparr>key = ''key'', allowed_url = ''http://shop.test/''\<rparr>],
     sessions = [], session_chunks = []\<rparr>"

definition click_at :: "int \<Rightarrow> int \<Rightarrow> int \<Rightarrow> event" where
  "click_at t x y = \<lparr>type = ''click'', timestamp = t,
     data = Some (no_data\<lparr>d_x := Some x, d_y := Some y\<rparr>)\<rparr>"

definition snapshot_at :: "int \<Rightarrow> string \<Rightarrow> event" where
  "snapshot_at t h = \<lparr>type = ''dom_snapshot'', timestamp = t,
     data = Some (no_data\<lparr>d_html := Some h\<rparr>)\<rparr>"

definition session_start_at :: "int \<Rightarrow> event" where
  "session_start_at t = \<lparr>type = ''session_start'', timestamp = t,
     data = Some (no_data\<lparr>d_timestamp := Some ''2024-01-01T00:00:00.000Z''\<rparr>)\<rparr>"

definition chunk_request :: "string \<Rightarrow> event option list \<Rightarrow> request" where
  "chunk_request k evs = \<lparr>x_api_key = Some k,
     body = Some \<lparr>b_sessionId = ''s1'', b_events = Some evs, b_url = ''http://shop.test/''\<rparr>\<rparr>"

text \<open>
  Two chunks of one session with the same length, first type, last type and first
  wall-clock timestamp, and different events in between and at the end.
\<close>

definition chunkA :: "event list" where
  "chunkA = [session_start_at 0, click_at 1200 50 80, snapshot_at 3000 ''B'']"

definition chunkB :: "event list" where
  "chunkB = [session_start_at 0, click_at 1700 300 40, snapshot_at 4100 ''C'']"

text \<open>The timeline of the specification's end-to-end example, and one whose first snapshot comes late.\<close>

definition spec_timeline :: "event list" where
  "spec_timeline =
     [session_start_at 0, snapshot_at 0 ''A'', click_at 1200 50 80, snapshot_at 3000 ''B'']"

definition late_timeline :: "event list" where
  "late_timeline = [session_start_at 0, snapshot_at 1000 ''A'', snapshot_at 3000 ''B'']"

definition handler_markup :: string where
  "handler_markup = ''<html><head></head><body><img src=x onerror=alert(1)></body></html>''"

lemmas fixtures = demo_env_def demo_store_def click_at_def snapshot_at_def session_start_at_def
  chunk_request_def chunkA_def chunkB_def spec_timeline_def late_timeline_def no_data_def

lemmas recorder_defs = scrolls_def started_def start_def new_recorder_def page_at_def Let_def
  recordEvent_def captureInitialDomState_def scheduleDomSnapshots_def saveChunk_def
  captureFullDomSnapshot_def accumulated_def

lemmas server_defs = POST_def ensureSession_def storeChunk_def generateChunkHash_def single_def
  normalizeUrl_def firstTimestamp_def Let_def string_of_nat.simps

lemmas replay_defs = loaded_def html_of_def canvas_of_def url_of_def handleTimelineChange_def
  Let_def seekCursor_def seekDom_def seekUrl_def lastDomSnapshot_def getTotalDuration_def

section \<open>The recorder: start, stop and the event buffer\<close>

lemma recordEvent_idle: "\<not> isRecording r \<Longrightarrow> recordEvent ty d p r = r"
  by (simp add: recordEvent_def)

lemma accumulated_saveChunk: "accumulated (saveChunk r) = accumulated r"
  by (simp add: accumulated_def saveChunk_def)

lemma accumulated_recordEvent:
  "isRecording r \<Longrightarrow>
     accumulated (recordEvent ty d p r) =
       accumulated r @ [\<lparr>type = ty, timestamp = now p - startTime r, data = Some d\<rparr>]"
  by (simp add: recordEvent_def Let_def accumulated_def saveChunk_def)

text \<open>
  \<^verbatim>\<open>stop\<close> clears \<^verbatim>\<open>isRecording\<close> before it calls \<^verbatim>\<open>recordEvent\<close> and
  \<^verbatim>\<open>captureFullDomSnapshot\<close>, which both return at once on a recorder that is not recording:
  whatever the recorder, the buffer and the flushed chunks are those from before the call.
\<close>

lemma stop_keeps_log:
  "events (snd (stop p r)) = events r \<and> flushed (snd (stop p r)) = flushed r"
  by (simp add: stop_def Let_def recordEvent_def captureFullDomSnapshot_def)

text \<open>
  C1. Calling \<^verbatim>\<open>stop()\<close> on a started recorder should leave a \<^verbatim>\<open>session_end\<close> event and a
  closing \<^verbatim>\<open>dom_snapshot\<close> in the accumulated log. On the recorder started at time 0 and
  stopped at time 1000 it does not: the log after \<^verbatim>\<open>stop()\<close> is the log before it, the three
  events of \<^verbatim>\<open>start()\<close>; the listeners and the snapshot interval are gone, the mutation
  observer is still connected.
\<close>

theorem stop_records_no_closing_events:
  "isRecording started \<and>
   accumulated (snd (stop (page_at 1000) started)) = accumulated started \<and>
   map type (accumulated (snd (stop (page_at 1000) started)))
     = [''initial_dom_state'', ''dom_snapshot'', ''session_start''] \<and>
   \<not> isRecording (snd (stop (page_at 1000) started)) \<and>
   \<not> listening (snd (stop (page_at 1000) started)) \<and>
   \<not> snapshotInterval (snd (stop (page_at 1000) started)) \<and>
   observing (snd (stop (page_at 1000) started))"
  by (simp add: stop_def saveSession_def recorder_defs)

subsection \<open>Significance scoring\<close>







subsection \<open>The flush threshold\<close>

text \<open>
  C6, as stated, fails: the tenth buffered event does not flush. After \<^verbatim>\<open>start()\<close> and nine
  scroll events the buffer holds nine events; recording one more brings it to ten, and
  no chunk is spliced out.
\<close>

theorem flush_at_ten_counterexample:
  "isRecording (scrolls [1, 2, 3, 4, 5, 6, 7, 8, 9] started) \<and>
   length (events (scrolls [1, 2, 3, 4, 5, 6, 7, 8, 9] started)) = 9 \<and>
   length (events (recordEvent ''scroll'' no_data (page_at 10)
             (scrolls [1, 2, 3, 4, 5, 6, 7, 8, 9] started))) = 10 \<and>
   flushed (recordEvent ''scroll'' no_data (page_at 10)
             (scrolls [1, 2, 3, 4, 5, 6, 7, 8, 9] started))
     = flushed (scrolls [1, 2, 3, 4, 5, 6, 7, 8, 9] started)"
  by (simp add: recorder_defs)

text \<open>
  C6, amended. While recording, \<^verbatim>\<open>recordEvent\<close> flushes when the buffer exceeds 10 events:
  an event recorded onto a buffer of 10 or more takes the whole buffer, the new event
  included, out as one chunk; onto fewer than 10 it is appended and nothing is flushed. So
  the buffer holds at most 10 events whenever \<^verbatim>\<open>recordEvent\<close> returns, whatever the timers do.
\<close>

theorem recordEvent_flush_threshold:
  assumes "isRecording r"
  shows "(10 \<le> length (events r) \<longrightarrow>
            events (recordEvent ty d p r) = [] \<and>
            flushed (recordEvent ty d p r) =
              flushed r @ [events r @ [\<lparr>type = ty, timestamp = now p - startTime r, data = Some d\<rparr>]]) \<and>
         (length (events r) < 10 \<longrightarrow>
            events (recordEvent ty d p r) =
              events r @ [\<lparr>type = ty, timestamp = now p - startTime r, data = Some d\<rparr>] \<and>
            flushed (recordEvent ty d p r) = flushed r) \<and>
         length (events (recordEvent ty d p r)) \<le> 10"
  using assms by (simp add: recordEvent_def Let_def saveChunk_def)

text \<open>The eleventh event flushes a chunk of eleven.\<close>

theorem recordEvent_flush_threshold_witness:
  "isRecording (scrolls [1, 2, 3, 4, 5, 6, 7, 8, 9, 10] started) \<and>
   length (events (scrolls [1, 2, 3, 4, 5, 6, 7, 8, 9, 10] started)) = 10 \<and>
   events (recordEvent ''click'' no_data (page_at 11)
             (scrolls [1, 2, 3, 4, 5, 6, 7, 8, 9, 10] started)) = [] \<and>
   length (last (flushed (recordEvent ''click'' no_data (page_at 11)
             (scrolls [1, 2, 3, 4, 5, 6, 7, 8, 9, 10] started)))) = 11"
proof -
  let ?r = "scrolls [1, 2, 3, 4, 5, 6, 7, 8, 9, 10] started"
  have rec: "isRecording ?r" by (simp add: recorder_defs)
  have ten: "length (events ?r) = 10" by (simp add: recorder_defs)
  from recordEvent_flush_threshold [OF rec, of "''click''" no_data "page_at 11"] ten
  have "events (recordEvent ''click'' no_data (page_at 11) ?r) = [] \<and>
        flushed (recordEvent ''click'' no_data (page_at 11) ?r) =
          flushed ?r @ [events ?r @ [\<lparr>type = ''click'', timestamp = now (page_at 11) - startTime ?r,
                                       data = Some no_data\<rparr>]]"
    by simp
  with rec ten show ?thesis by simp
qed

subsection \<open>Flushing a chunk\<close>

text \<open>
  C7. A flush of a non-empty buffer takes the whole buffer as the chunk and leaves an empty
  one, so that every accepted event is still in the log exactly once, and an event recorded
  afterwards is alone in the fresh buffer. When the session upsert or the chunk submission
  throws or answers with a status outside 200 to 299 other than 401, the chunk is put back
  in front of the live buffer. When either answers 401, recording is switched off, the
  chunk is not put back, and later events are no longer recorded.
\<close>

theorem flush_swap_and_failure_handling:
  "(events r \<noteq> [] \<longrightarrow>
      events (saveChunk r) = [] \<and> flushed (saveChunk r) = flushed r @ [events r] \<and>
      accumulated (saveChunk r) = accumulated r \<and>
      (isRecording r \<longrightarrow>
         events (recordEvent ty d p (saveChunk r)) =
           [\<lparr>type = ty, timestamp = now p - startTime r, data = Some d\<rparr>] \<and>
         flushed (recordEvent ty d p (saveChunk r)) = flushed r @ [events r])) \<and>
   (sessionResponse = Rejected \<or> (\<exists>st. sessionResponse = Response st \<and> st \<noteq> 401 \<and> \<not> ok st) \<longrightarrow>
      saveChunk_settle sessionResponse chunkResponse parses chunk r = r\<lparr>events := chunk @ events r\<rparr>) \<and>
   ((\<exists>st. sessionResponse = Response st \<and> ok st) \<and>
    (chunkResponse = Rejected \<or> (\<exists>st. chunkResponse = Response st \<and> st \<noteq> 401 \<and> \<not> ok st)) \<longrightarrow>
      saveChunk_settle sessionResponse chunkResponse parses chunk r = r\<lparr>events := chunk @ events r\<rparr>) \<and>
   (sessionResponse = Response 401 \<or>
    (\<exists>st. sessionResponse = Response st \<and> ok st) \<and> chunkResponse = Response 401 \<longrightarrow>
      saveChunk_settle sessionResponse chunkResponse parses chunk r = r\<lparr>isRecording := False\<rparr> \<and>
      events (saveChunk_settle sessionResponse chunkResponse parses chunk r) = events r \<and>
      recordEvent ty d p (saveChunk_settle sessionResponse chunkResponse parses chunk r)
        = saveChunk_settle sessionResponse chunkResponse parses chunk r)"
  by (auto simp add: saveChunk_settle_def requeue_def saveChunk_def accumulated_def recordEvent_def
      Let_def ok_def split: fetch_result.splits)

text \<open>
  Two scroll events at 1 and 2 ms are flushed and a click at 3 ms follows: a 500 on the
  chunk submission gives the buffer 1, 2, 3; a transport that throws gives 1, 2 back; a 401
  stops the recorder with an empty buffer.
\<close>

theorem flush_swap_and_failure_handling_witness:
  "events (scrolls [1, 2] started) \<noteq> [] \<and>
   events (saveChunk (scrolls [1, 2] started)) = [] \<and>
   map timestamp (events (recordEvent ''click'' no_data (page_at 3) (saveChunk (scrolls [1, 2] started))))
     = [3] \<and>
   map timestamp (events (saveChunk_settle (Response 200) (Response 500) True (events (scrolls [1, 2] started))
        (recordEvent ''click'' no_data (page_at 3) (saveChunk (scrolls [1, 2] started)))))
     = [1, 2, 3] \<and>
   map timestamp (events (saveChunk_settle Rejected Rejected True (events (scrolls [1, 2] started))
        (saveChunk (scrolls [1, 2] started))))
     = [1, 2] \<and>
   \<not> isRecording (saveChunk_settle (Response 200) (Response 401) True (events (scrolls [1, 2] started))
        (saveChunk (scrolls [1, 2] started))) \<and>
   events (saveChunk_settle (Response 200) (Response 401) True (events (scrolls [1, 2] started))
        (saveChunk (scrolls [1, 2] started))) = []"
proof -
  let ?r = "scrolls [1, 2] started"
  let ?later = "recordEvent ''click'' no_data (page_at 3) (saveChunk ?r)"
  have full: "events ?r \<noteq> []" by (simp add: recorder_defs)
  have rec: "isRecording ?r" by (simp add: recorder_defs)
  have ts: "map timestamp (events ?r) = [1, 2]" by (simp add: recorder_defs)
  have t0: "startTime ?r = 0" by (simp add: recorder_defs)
  from flush_swap_and_failure_handling [of ?r "''click''" no_data "page_at 3"] full rec
  have swap: "events (saveChunk ?r) = []"
    and fresh: "events ?later = [\<lparr>type = ''click'', timestamp = now (page_at 3) - startTime ?r,
                                  data = Some no_data\<rparr>]"
    by blast+
  have refused: "(\<exists>st. Response 200 = Response st \<and> ok st) \<and>
      (Response 500 = Rejected \<or> (\<exists>st. Response 500 = Response st \<and> st \<noteq> 401 \<and> \<not> ok st))"
    by (simp add: ok_def)
  from flush_swap_and_failure_handling [where r = ?later and sessionResponse = "Response 200"
      and chunkResponse = "Response 500" and parses = True and chunk = "events ?r"] refused
  have again: "saveChunk_settle (Response 200) (Response 500) True (events ?r) ?later
                = ?later\<lparr>events := events ?r @ events ?later\<rparr>"
    by blast
  from flush_swap_and_failure_handling [where r = "saveChunk ?r" and sessionResponse = Rejected
      and chunkResponse = Rejected and parses = True and chunk = "events ?r"]
  have threw: "saveChunk_settle Rejected Rejected True (events ?r) (saveChunk ?r)
                = (saveChunk ?r)\<lparr>events := events ?r @ events (saveChunk ?r)\<rparr>"
    by blast
  have denied: "Response 200 = Response 401 \<or>
      (\<exists>st. Response 200 = Response st \<and> ok st) \<and> Response 401 = Response 401"
    by (simp add: ok_def)
  from flush_swap_and_failure_handling [where r = "saveChunk ?r" and sessionResponse = "Response 200"
      and chunkResponse = "Response 401" and parses = True and chunk = "events ?r"] denied
  have fatal: "saveChunk_settle (Response 200) (Response 401) True (events ?r) (saveChunk ?r)
                = (saveChunk ?r)\<lparr>isRecording := False\<rparr>"
    by blast
  show ?thesis
    unfolding again threw fatal using full swap fresh ts t0 by (simp add: page_at_def)
qed


section \<open>The chunk endpoint: duplicates and empty chunks\<close>


lemma single_singleton: "single [x] = Some x"
  by (simp add: single_def)

lemma filter_distinct_key:
  "distinct (map f xs) \<Longrightarrow> length (filter (\<lambda>x. f x = v) xs) \<le> 1"
  by (induction xs) (auto simp add: filter_empty_conv image_iff)

lemma single_None_distinct:
  assumes "distinct (map f xs)" and "single (filter (\<lambda>x. f x = v) xs) = None"
  shows "filter (\<lambda>x. f x = v) xs = []"
proof (cases "filter (\<lambda>x. f x = v) xs")
  case Nil
  then show ?thesis .
next
  case (Cons y ys)
  with filter_distinct_key [OF assms(1), of v] have "ys = []" by simp
  with Cons assms(2) show ?thesis by (simp add: single_def)
qed



lemma ensureSession_settles:
  assumes "ensureSession env sid url db = Some db'"
  shows "\<exists>row. single (filter (\<lambda>s. row_id s = sid) (sessions db')) = Some row"
    and "session_chunks db' = session_chunks db"
proof -
  show "\<exists>row. single (filter (\<lambda>s. row_id s = sid) (sessions db')) = Some row"
  proof (cases "single (filter (\<lambda>s. row_id s = sid) (sessions db))")
    case (Some row)
    with assms show ?thesis by (auto simp add: ensureSession_def)
  next
    case None
    with assms have notin: "sid \<notin> set (map row_id (sessions db))"
      and db': "db' = db\<lparr>sessions := sessions db @
                  [\<lparr>row_id = sid, row_url = url, row_created_at = s_now env\<rparr>]\<rparr>"
      by (auto simp add: ensureSession_def split: if_splits)
    from notin have "filter (\<lambda>s. row_id s = sid) (sessions db) = []"
      by (auto simp add: filter_empty_conv)
    with db' show ?thesis by (simp add: single_def)
  qed
  show "session_chunks db' = session_chunks db"
    using assms by (auto simp add: ensureSession_def split: option.splits if_splits)
qed




text \<open>The handler keeps the hashes of the stored chunks distinct.\<close>

lemma storeChunk_keeps_distinct:
  assumes "distinct (map hash (session_chunks db))"
  shows "distinct (map hash (session_chunks (snd (storeChunk env sid evs db))))"
proof (cases "single (filter (\<lambda>c. hash c = generateChunkHash (random env) sid evs) (session_chunks db))")
  case (Some row)
  with assms show ?thesis by (simp add: storeChunk_def Let_def)
next
  case None
  from single_None_distinct [OF assms None]
  have "generateChunkHash (random env) sid evs \<notin> hash ` set (session_chunks db)"
    by (auto simp add: filter_empty_conv)
  with assms None show ?thesis by (simp add: storeChunk_def Let_def)
qed

lemma POST_keeps_distinct:
  assumes "distinct (map hash (session_chunks db))"
  shows "distinct (map hash (session_chunks (snd (POST parseUrl env req db))))"
proof -
  have "distinct (map hash (session_chunks (snd (storeChunk env sid evs db'))))"
    if "ensureSession env sid url db = Some db'" for sid url evs db'
    using ensureSession_settles(2) [OF that] assms storeChunk_keeps_distinct [of db' env sid evs]
    by simp
  with assms show ?thesis
    by (simp add: POST_def split: option.splits)
qed



text \<open>
  C4. The fingerprint is not injective: \<open>chunkA\<close> and \<open>chunkB\<close> are different event lists
  of session \<open>s1\<close> with the same fingerprint. Submitted one after the other, the first is
  stored and the second is answered as a duplicate, with success, and never stored.
\<close>

theorem fingerprint_collision_drops_chunk:
  "map Some chunkA \<noteq> map Some chunkB \<and>
   generateChunkHash rnd ''s1'' (map Some chunkA) = generateChunkHash rnd' ''s1'' (map Some chunkB) \<and>
   fst (POST parseUrl demo_env (chunk_request ''key'' (map Some chunkA)) demo_store) = (200, Success None) \<and>
   fst (POST parseUrl demo_env (chunk_request ''key'' (map Some chunkB))
         (snd (POST parseUrl demo_env (chunk_request ''key'' (map Some chunkA)) demo_store)))
     = (200, Success (Some ''Duplicate chunk skipped'')) \<and>
   map chunk_events (session_chunks (snd (POST parseUrl demo_env (chunk_request ''key'' (map Some chunkB))
         (snd (POST parseUrl demo_env (chunk_request ''key'' (map Some chunkA)) demo_store)))))
     = [map Some chunkA]"
  by (simp add: fixtures server_defs)

text \<open>
  C10. A request with a non-empty \<^verbatim>\<open>x-api-key\<close> header and a session id whose events array
  is empty is answered with status 200 and "No events to save", and the store is
  untouched, whatever the key table holds: the key is looked up only after this return.
  The same request with events and a key that the table does not hold is refused with 401.
\<close>

theorem empty_chunk_skips_credential_check:
  assumes "x_api_key req = Some k" and "k \<noteq> []"
    and "body req = Some b" and "b_sessionId b \<noteq> []" and "b_events b = Some evs"
  shows "(evs = [] \<longrightarrow> POST parseUrl env req db = ((200, Message ''No events to save''), db)) \<and>
         (evs \<noteq> [] \<and> single (filter (\<lambda>row. key row = k) (api_keys db)) = None \<longrightarrow>
            POST parseUrl env req db = ((401, Error ''Invalid API key''), db))"
  using assms by (simp add: POST_def)

text \<open>An unknown key: accepted with an empty chunk, refused with events.\<close>

theorem empty_chunk_skips_credential_check_witness:
  "POST (\<lambda>u. None) demo_env (chunk_request ''not-a-key'' []) demo_store
     = ((200, Message ''No events to save''), demo_store) \<and>
   POST (\<lambda>u. None) demo_env (chunk_request ''not-a-key'' (map Some chunkA)) demo_store
     = ((401, Error ''Invalid API key''), demo_store)"
proof -
  let ?b = "\<lambda>evs. \<lparr>b_sessionId = ''s1'', b_events = Some evs, b_url = ''http://shop.test/''\<rparr>"
  have k: "x_api_key (chunk_request ''not-a-key'' evs) = Some ''not-a-key''" for evs
    by (simp add: chunk_request_def)
  have ne: "''not-a-key'' \<noteq> []" by simp
  have b: "body (chunk_request ''not-a-key'' evs) = Some (?b evs)" for evs
    by (simp add: chunk_request_def)
  have sid: "b_sessionId (?b evs) \<noteq> []" for evs by simp
  have evs: "b_events (?b evs) = Some evs" for evs by simp
  have unknown: "map Some chunkA \<noteq> [] \<and>
      single (filter (\<lambda>row. key row = ''not-a-key'') (api_keys demo_store)) = None"
    by (simp add: chunkA_def demo_store_def single_def)
  from empty_chunk_skips_credential_check [OF k ne b sid evs, of "[]" "\<lambda>u. None" demo_env demo_store]
       empty_chunk_skips_credential_check [OF k ne b sid evs, of "map Some chunkA" "\<lambda>u. None" demo_env demo_store]
       unknown
  show ?thesis by blast
qed

section \<open>Replay: seeking\<close>

lemma seekCursor_dom: "reconstructedDom (seekCursor evs T st) = reconstructedDom st"
  by (simp add: seekCursor_def split: option.splits prod.splits)

lemma seekUrl_dom: "reconstructedDom (seekUrl evs T st) = reconstructedDom st"
  by (simp add: seekUrl_def split: list.splits)

lemma seekDom_dom:
  "reconstructedDom (seekDom evs T st) =
     (case lastDomSnapshot evs T of
        None \<Rightarrow> reconstructedDom st
      | Some s \<Rightarrow> if html_of s = [] then reconstructedDom st else html_of s)"
  by (simp add: seekDom_def split: option.splits)

lemma handleTimelineChange_dom:
  "reconstructedDom (handleTimelineChange evs T st) =
     (case lastDomSnapshot evs T of
        None \<Rightarrow> reconstructedDom st
      | Some s \<Rightarrow> if html_of s = [] then reconstructedDom st else html_of s)"
  by (simp add: handleTimelineChange_def Let_def seekUrl_dom seekDom_dom seekCursor_dom
      split: option.splits)

lemma sort_key_head:
  assumes "sort_key f xs = y # ys"
  shows "y \<in> set xs \<and> (\<forall>x \<in> set xs. f y \<le> f x)"
proof -
  have "set (sort_key f xs) = set xs" by simp
  with assms have mem: "set xs = insert y (set ys)" by simp
  have "sorted (map f (sort_key f xs))" by (rule sorted_sort_key)
  with assms have "\<forall>z \<in> set ys. f y \<le> f z" by simp
  with mem show ?thesis by auto
qed

lemma sort_key_Nil: "sort_key f xs = [] \<Longrightarrow> xs = []"
  using length_sort [of f xs] by simp

lemma lastDomSnapshot_None:
  "lastDomSnapshot evs T = None \<longleftrightarrow>
     filter (\<lambda>e. type e = ''dom_snapshot'' \<and> timestamp e \<le> T) evs = []"
proof
  assume "lastDomSnapshot evs T = None"
  then have "sort_key (\<lambda>e. - timestamp e)
      (filter (\<lambda>e. type e = ''dom_snapshot'' \<and> timestamp e \<le> T) evs) = []"
    by (simp add: lastDomSnapshot_def split: list.splits)
  then show "filter (\<lambda>e. type e = ''dom_snapshot'' \<and> timestamp e \<le> T) evs = []"
    by (rule sort_key_Nil)
next
  assume "filter (\<lambda>e. type e = ''dom_snapshot'' \<and> timestamp e \<le> T) evs = []"
  then show "lastDomSnapshot evs T = None"
    by (simp add: lastDomSnapshot_def)
qed

lemma lastDomSnapshot_Some:
  assumes "lastDomSnapshot evs T = Some s"
  shows "s \<in> set evs \<and> type s = ''dom_snapshot'' \<and> timestamp s \<le> T \<and>
         (\<forall>e \<in> set evs. type e = ''dom_snapshot'' \<and> timestamp e \<le> T \<longrightarrow> timestamp e \<le> timestamp s)"
proof -
  let ?xs = "filter (\<lambda>e. type e = ''dom_snapshot'' \<and> timestamp e \<le> T) evs"
  from assms obtain ys where "sort_key (\<lambda>e. - timestamp e) ?xs = s # ys"
    by (auto simp add: lastDomSnapshot_def split: list.splits)
  from sort_key_head [OF this] show ?thesis by auto
qed

lemma spec_example:
  "reconstructedDom (handleTimelineChange spec_timeline 2000 st) = ''A'' \<and>
   cursorPosition (handleTimelineChange spec_timeline 2000 st) = (50, 80) \<and>
   reconstructedDom (handleTimelineChange spec_timeline 3500 st) = ''B''"
  by (simp add: fixtures replay_defs)

text \<open>
  C2, as stated, fails where no snapshot is old enough: the DOM is left as it is, which need
  not be the first snapshot. With snapshots A at 1000 ms and B at 3000 ms, the page loads
  with A; seeking to 3500 shows B; seeking back to 500, where no snapshot qualifies, still
  shows B. A selected snapshot whose markup is empty is not adopted either: with A at 0 ms
  and an empty snapshot at 1000 ms, seeking to 1500 selects the empty one and keeps A.
\<close>

theorem seek_fallback_counterexample:
  "reconstructedDom (loaded None late_timeline) = ''A'' \<and>
   map html_of (filter (\<lambda>e. type e = ''dom_snapshot'') late_timeline) = [''A'', ''B''] \<and>
   filter (\<lambda>e. type e = ''dom_snapshot'' \<and> timestamp e \<le> 500) late_timeline = [] \<and>
   reconstructedDom (handleTimelineChange late_timeline 500
       (handleTimelineChange late_timeline 3500 (loaded None late_timeline))) = ''B'' \<and>
   lastDomSnapshot [snapshot_at 0 ''A'', snapshot_at 1000 []] 1500 = Some (snapshot_at 1000 []) \<and>
   reconstructedDom (handleTimelineChange [snapshot_at 0 ''A'', snapshot_at 1000 []] 1500
       (loaded None [snapshot_at 0 ''A'', snapshot_at 1000 []])) = ''A''"
  by (simp add: fixtures replay_defs)

text \<open>
  C2, amended. For every event list and target time \<open>T\<close>: when some \<^verbatim>\<open>dom_snapshot\<close> has a
  timestamp at most \<open>T\<close>, seeking selects one with the greatest such timestamp and adopts
  its markup as the DOM, unless that markup is empty, in which case the DOM is unchanged;
  when none has, the DOM is unchanged. On the specification's timeline, seeking to 2000
  gives DOM A and cursor (50, 80), and seeking to 3500 gives DOM B, from any state.
\<close>

theorem seek_adopts_latest_snapshot:
  "(filter (\<lambda>e. type e = ''dom_snapshot'' \<and> timestamp e \<le> T) evs = [] \<longrightarrow>
      reconstructedDom (handleTimelineChange evs T st) = reconstructedDom st) \<and>
   (filter (\<lambda>e. type e = ''dom_snapshot'' \<and> timestamp e \<le> T) evs \<noteq> [] \<longrightarrow>
      (\<exists>s \<in> set evs. type s = ''dom_snapshot'' \<and> timestamp s \<le> T \<and>
         (\<forall>e \<in> set evs. type e = ''dom_snapshot'' \<and> timestamp e \<le> T \<longrightarrow> timestamp e \<le> timestamp s) \<and>
         reconstructedDom (handleTimelineChange evs T st) =
           (if html_of s = [] then reconstructedDom st else html_of s))) \<and>
   reconstructedDom (handleTimelineChange spec_timeline 2000 st) = ''A'' \<and>
   cursorPosition (handleTimelineChange spec_timeline 2000 st) = (50, 80) \<and>
   reconstructedDom (handleTimelineChange spec_timeline 3500 st) = ''B''"
proof (cases "lastDomSnapshot evs T")
  case None
  then have "filter (\<lambda>e. type e = ''dom_snapshot'' \<and> timestamp e \<le> T) evs = []"
    by (simp only: lastDomSnapshot_None)
  with None show ?thesis
    using spec_example [of st] by (simp add: handleTimelineChange_dom)
next
  case (Some s)
  then have "filter (\<lambda>e. type e = ''dom_snapshot'' \<and> timestamp e \<le> T) evs \<noteq> []"
    using lastDomSnapshot_None [of evs T] by simp
  moreover from Some have "reconstructedDom (handleTimelineChange evs T st) =
           (if html_of s = [] then reconstructedDom st else html_of s)"
    by (simp add: handleTimelineChange_dom)
  ultimately show ?thesis using lastDomSnapshot_Some [OF Some] spec_example [of st] by blast
qed

text \<open>On the late timeline: seeking to 500 keeps the loaded DOM, seeking to 3500 adopts B.\<close>

theorem seek_adopts_latest_snapshot_witness:
  "filter (\<lambda>e. type e = ''dom_snapshot'' \<and> timestamp e \<le> 500) late_timeline = [] \<and>
   reconstructedDom (handleTimelineChange late_timeline 500 (loaded None late_timeline))
     = reconstructedDom (loaded None late_timeline) \<and>
   filter (\<lambda>e. type e = ''dom_snapshot'' \<and> timestamp e \<le> 3500) late_timeline \<noteq> [] \<and>
   reconstructedDom (handleTimelineChange late_timeline 3500 (loaded None late_timeline)) = ''B''"
proof -
  have none: "filter (\<lambda>e. type e = ''dom_snapshot'' \<and> timestamp e \<le> 500) late_timeline = []"
    by (simp add: fixtures)
  have some: "filter (\<lambda>e. type e = ''dom_snapshot'' \<and> timestamp e \<le> 3500) late_timeline \<noteq> []"
    by (simp add: fixtures)
  from seek_adopts_latest_snapshot [of 500 late_timeline "loaded None late_timeline"] none
  have kept: "reconstructedDom (handleTimelineChange late_timeline 500 (loaded None late_timeline))
     = reconstructedDom (loaded None late_timeline)"
    by blast
  from seek_adopts_latest_snapshot [of 3500 late_timeline "loaded None late_timeline"] some
  obtain s where s: "s \<in> set late_timeline" "type s = ''dom_snapshot''"
    and top: "\<forall>e \<in> set late_timeline. type e = ''dom_snapshot'' \<and> timestamp e \<le> 3500 \<longrightarrow> timestamp e \<le> timestamp s"
    and dom: "reconstructedDom (handleTimelineChange late_timeline 3500 (loaded None late_timeline)) =
           (if html_of s = [] then reconstructedDom (loaded None late_timeline) else html_of s)"
    by blast
  from top have "timestamp (snapshot_at 3000 ''B'') \<le> timestamp s"
    by (simp add: fixtures)
  with s have "s = snapshot_at 3000 ''B''"
    by (auto simp add: fixtures)
  with dom have "reconstructedDom (handleTimelineChange late_timeline 3500 (loaded None late_timeline)) = ''B''"
    by (simp add: fixtures html_of_def)
  with none some kept show ?thesis by blast
qed

section \<open>Replay: the coordinate transform\<close>




section \<open>Replay: sanitising\<close>

text \<open>
  The first pass removes one level of script elements only: a script element split around
  another one is put together by the removal. (The DOM pass that follows in
  \<^verbatim>\<open>applyDomToReplayContent\<close> removes the script elements it finds.)
\<close>

lemma nested_script_survives:
  "sanitizeHtml ''<scr<script></script>ipt>alert(1)</script>'' = ''<script>alert(1)</script>''"
  by code_simp

text \<open>
  C8. Markup adopted as a replay baseline should carry no inline event handler. The
  handler patterns of \<^verbatim>\<open>sanitizeHtml\<close> match quoted attribute values only: the document
  \<open>handler_markup\<close>, whose \<^verbatim>\<open>img\<close> element has the unquoted attribute
  \<^verbatim>\<open>onerror=alert(1)\<close>, passes every guard and is adopted unchanged.
\<close>

theorem unquoted_handler_survives:
  "sanitizeHtml handler_markup = handler_markup \<and> adoptedMarkup handler_markup = Some handler_markup"
  by code_simp

end
